theory Spec2Isabelle
  imports Complex_Main
begin

section \<open>The rotation algebra of \<^verbatim>\<open>matrix/Quaternion.hpp\<close>\<close>

text \<open>
  The class \<^verbatim>\<open>Quaternion<Type>\<close> is a 4-vector of \<^verbatim>\<open>Type\<close> with the real part first.
  The scalar type \<^verbatim>\<open>Type\<close> is read in two ways.

  In the first reading \<^verbatim>\<open>Type\<close> is the real numbers: addition, subtraction and
  multiplication are exact, \<^verbatim>\<open>sqrt\<close>, \<^verbatim>\<open>sin\<close>, \<^verbatim>\<open>cos\<close> are the real functions. Rounding,
  overflow and the non-finite values of IEEE arithmetic are outside this reading. A
  division whose divisor can be zero and whose quotient reaches the returned value
  is modelled as partial: the function returns \<open>None\<close> there, standing for "no real
  number is returned", not for an error value of the source (the source has none).
  This reading carries the formulas and the algebraic laws.

  In the second reading \<^verbatim>\<open>Type\<close> is \<^verbatim>\<open>float\<close>, as in \<^verbatim>\<open>Quatf\<close>: every multiplication,
  addition and subtraction returns the exact result rounded to the nearest binary32
  value. It is given for the product and the dot product, where rounding decides
  whether the unit norm survives a multiplication.
\<close>

subsection \<open>Data\<close>

text \<open>\<^verbatim>\<open>Quaternion(Type a, Type b, Type c, Type d)\<close>: the components \<^verbatim>\<open>q(0)\<close> .. \<^verbatim>\<open>q(3)\<close>.\<close>

datatype quaternion = Quaternion (q0: real) (q1: real) (q2: real) (q3: real)

text \<open>A \<^verbatim>\<open>Matrix41\<close> is the same four numbers; \<^verbatim>\<open>Quaternion\<close> derives from it.\<close>

type_synonym matrix41 = quaternion

text \<open>\<^verbatim>\<open>Vector<Type, 3>\<close>, \<^verbatim>\<open>Vector3f\<close>, \<^verbatim>\<open>Matrix31\<close>: the components \<^verbatim>\<open>v(0)\<close> .. \<^verbatim>\<open>v(2)\<close>.\<close>

datatype vector3 = Vector3 (v0: real) (v1: real) (v2: real)

text \<open>\<^verbatim>\<open>Dcm<Type>\<close>: a 3x3 matrix, \<open>rij\<close> is the element \<^verbatim>\<open>R(i,j)\<close>.\<close>

datatype dcm = Dcm (r00: real) (r01: real) (r02: real)
                   (r10: real) (r11: real) (r12: real)
                   (r20: real) (r21: real) (r22: real)

text \<open>\<^verbatim>\<open>Euler<Type>\<close> with its accessors \<^verbatim>\<open>phi()\<close>, \<^verbatim>\<open>theta()\<close>, \<^verbatim>\<open>psi()\<close>.\<close>

datatype euler = Euler (phi: real) (theta: real) (psi: real)

text \<open>\<^verbatim>\<open>AxisAngle<Type>\<close> is a 3-vector: its norm is the angle, its direction the axis.\<close>

type_synonym axis_angle = vector3

subsection \<open>Vector and matrix primitives\<close>

text \<open>Modelled from the spec: the dot product of \<^verbatim>\<open>Vector\<close> (\<^verbatim>\<open>q.dot(q)\<close>), whose
  header is not part of the sources; the sum of the componentwise products.\<close>

definition dot :: "quaternion \<Rightarrow> quaternion \<Rightarrow> real" where
  "dot p q = q0 p * q0 q + q1 p * q1 q + q2 p * q2 q + q3 p * q3 q"

text \<open>Modelled from the spec: \<^verbatim>\<open>norm()\<close> of a 3-vector, the Euclidean length.\<close>

definition norm3 :: "vector3 \<Rightarrow> real" where
  "norm3 v = sqrt (v0 v * v0 v + v1 v * v1 v + v2 v * v2 v)"

text \<open>Modelled from the spec: elementwise scaling of a 4-vector (\<^verbatim>\<open>scalar * q\<close> of
  \<^verbatim>\<open>Matrix\<close>).\<close>

definition scale4 :: "real \<Rightarrow> quaternion \<Rightarrow> quaternion" where
  "scale4 s q = Quaternion (s * q0 q) (s * q1 q) (s * q2 q) (s * q3 q)"

text \<open>Modelled from the spec: elementwise scaling and division of a 3-vector
  (\<^verbatim>\<open>vec * s\<close>, \<^verbatim>\<open>vec / s\<close> of \<^verbatim>\<open>Matrix\<close>). Every use of \<open>div3\<close> below whose
  quotient is read has a divisor of at least \<open>1e-10\<close>.\<close>

definition scale3 :: "vector3 \<Rightarrow> real \<Rightarrow> vector3" where
  "scale3 v s = Vector3 (v0 v * s) (v1 v * s) (v2 v * s)"

definition div3 :: "vector3 \<Rightarrow> real \<Rightarrow> vector3" where
  "div3 v s = Vector3 (v0 v / s) (v1 v / s) (v2 v / s)"

text \<open>Modelled from the spec: \<^verbatim>\<open>unit()\<close> of a 3-vector, the vector over its norm.\<close>

definition unit3 :: "vector3 \<Rightarrow> vector3" where
  "unit3 v = div3 v (norm3 v)"

text \<open>Modelled from the spec: \<^verbatim>\<open>trace()\<close> of a \<^verbatim>\<open>Dcm\<close>, the sum of the diagonal.\<close>

definition trace :: "dcm \<Rightarrow> real" where
  "trace R = r00 R + r11 R + r22 R"

subsection \<open>Constructors\<close>

text \<open>\<^verbatim>\<open>Quaternion()\<close>: the standard constructor.\<close>

definition Quaternion_default :: quaternion where
  "Quaternion_default = Quaternion 1 0 0 0"

text \<open>\<^verbatim>\<open>Quaternion(const Dcm<Type> &R)\<close>. The variable \<^verbatim>\<open>t\<close> of the source is assigned three
  times in each branch: the trace, the square root (\<open>t1\<close>) and the factor (\<open>t2\<close>).\<close>

definition Quaternion_from_dcm :: "dcm \<Rightarrow> quaternion" where
  "Quaternion_from_dcm R =
    (let t = trace R in
     if t > 0 then
       (let t1 = sqrt (1 + t); t2 = 0.5 / t1 in
        Quaternion (0.5 * t1)
                   ((r21 R - r12 R) * t2)
                   ((r02 R - r20 R) * t2)
                   ((r10 R - r01 R) * t2))
     else if r00 R > r11 R \<and> r00 R > r22 R then
       (let t1 = sqrt (1 + r00 R - r11 R - r22 R); t2 = 0.5 / t1 in
        Quaternion ((r21 R - r12 R) * t2)
                   (0.5 * t1)
                   ((r10 R + r01 R) * t2)
                   ((r02 R + r20 R) * t2))
     else if r11 R > r22 R then
       (let t1 = sqrt (1 - r00 R + r11 R - r22 R); t2 = 0.5 / t1 in
        Quaternion ((r02 R - r20 R) * t2)
                   ((r10 R + r01 R) * t2)
                   (0.5 * t1)
                   ((r21 R + r12 R) * t2))
     else
       (let t1 = sqrt (1 - r00 R - r11 R + r22 R); t2 = 0.5 / t1 in
        Quaternion ((r10 R - r01 R) * t2)
                   ((r02 R + r20 R) * t2)
                   ((r21 R + r12 R) * t2)
                   (0.5 * t1)))"

text \<open>\<^verbatim>\<open>Quaternion(const Euler<Type> &euler)\<close>.\<close>

definition Quaternion_from_euler :: "euler \<Rightarrow> quaternion" where
  "Quaternion_from_euler e =
    (let cosPhi_2 = cos (phi e / 2); cosTheta_2 = cos (theta e / 2);
         cosPsi_2 = cos (psi e / 2); sinPhi_2 = sin (phi e / 2);
         sinTheta_2 = sin (theta e / 2); sinPsi_2 = sin (psi e / 2)
     in Quaternion
          (cosPhi_2 * cosTheta_2 * cosPsi_2 + sinPhi_2 * sinTheta_2 * sinPsi_2)
          (sinPhi_2 * cosTheta_2 * cosPsi_2 - cosPhi_2 * sinTheta_2 * sinPsi_2)
          (cosPhi_2 * sinTheta_2 * cosPsi_2 + sinPhi_2 * cosTheta_2 * sinPsi_2)
          (cosPhi_2 * cosTheta_2 * sinPsi_2 - sinPhi_2 * sinTheta_2 * cosPsi_2))"

text \<open>\<^verbatim>\<open>Quaternion(const AxisAngle<Type> &aa)\<close>. The axis is computed before the test
  and read in the second branch only.\<close>

definition Quaternion_from_AxisAngle :: "axis_angle \<Rightarrow> quaternion" where
  "Quaternion_from_AxisAngle aa =
    (let angle = norm3 aa; axis = unit3 aa in
     if angle < 1 / 10 ^ 10 then Quaternion 1 0 0 0
     else
       (let magnitude = sin (angle / 2) in
        Quaternion (cos (angle / 2)) (v0 axis * magnitude)
                   (v1 axis * magnitude) (v2 axis * magnitude)))"

subsection \<open>Operations\<close>

text \<open>\<^verbatim>\<open>Quaternion operator*(const Quaternion &q) const\<close>, with \<^verbatim>\<open>p = *this\<close>.\<close>

definition operator_mul :: "quaternion \<Rightarrow> quaternion \<Rightarrow> quaternion" where
  "operator_mul p q = Quaternion
     (q0 p * q0 q - q1 p * q1 q - q2 p * q2 q - q3 p * q3 q)
     (q0 p * q1 q + q1 p * q0 q + q2 p * q3 q - q3 p * q2 q)
     (q0 p * q2 q - q1 p * q3 q + q2 p * q0 q + q3 p * q1 q)
     (q0 p * q3 q + q1 p * q2 q - q2 p * q1 q + q3 p * q0 q)"

text \<open>\<^verbatim>\<open>Quaternion operator*(Type scalar) const\<close>: returns \<^verbatim>\<open>scalar * q\<close>.\<close>

definition operator_mul_scalar :: "quaternion \<Rightarrow> real \<Rightarrow> quaternion" where
  "operator_mul_scalar q scalar = scale4 scalar q"

text \<open>\<^verbatim>\<open>derivative1\<close> and \<^verbatim>\<open>derivative2\<close>: \<^verbatim>\<open>q * v * Type(0.5)\<close> and \<^verbatim>\<open>v * q * Type(0.5)\<close>.\<close>

definition derivative1 :: "quaternion \<Rightarrow> vector3 \<Rightarrow> matrix41" where
  "derivative1 q w =
    (let v = Quaternion 0 (v0 w) (v1 w) (v2 w) in
     operator_mul_scalar (operator_mul q v) 0.5)"

definition derivative2 :: "quaternion \<Rightarrow> vector3 \<Rightarrow> matrix41" where
  "derivative2 q w =
    (let v = Quaternion 0 (v0 w) (v1 w) (v2 w) in
     operator_mul_scalar (operator_mul v q) 0.5)"

text \<open>\<^verbatim>\<open>inversed()\<close>: the four components are divided by \<^verbatim>\<open>normSq\<close> with no test. At
  \<^verbatim>\<open>normSq = 0\<close> the source divides zero by zero; the model returns \<open>None\<close>.\<close>

definition inversed :: "quaternion \<Rightarrow> quaternion option" where
  "inversed q =
    (let normSq = dot q q in
     if normSq = 0 then None
     else Some (Quaternion (q0 q / normSq) (- q1 q / normSq)
                           (- q2 q / normSq) (- q3 q / normSq)))"

text \<open>\<^verbatim>\<open>conjugate\<close> and \<^verbatim>\<open>conjugate_inversed\<close>: the imaginary part of \<^verbatim>\<open>q*v*q.inversed()\<close>
  and of \<^verbatim>\<open>q.inversed()*v*q\<close>.\<close>

definition conjugate :: "quaternion \<Rightarrow> vector3 \<Rightarrow> vector3 option" where
  "conjugate q vec =
    (let v = Quaternion 0 (v0 vec) (v1 vec) (v2 vec) in
     case inversed q of
       None \<Rightarrow> None
     | Some qi \<Rightarrow>
         (let res = operator_mul (operator_mul q v) qi in
          Some (Vector3 (q1 res) (q2 res) (q3 res))))"

definition conjugate_inversed :: "quaternion \<Rightarrow> vector3 \<Rightarrow> vector3 option" where
  "conjugate_inversed q vec =
    (let v = Quaternion 0 (v0 vec) (v1 vec) (v2 vec) in
     case inversed q of
       None \<Rightarrow> None
     | Some qi \<Rightarrow>
         (let res = operator_mul (operator_mul qi v) q in
          Some (Vector3 (q1 res) (q2 res) (q3 res))))"

text \<open>\<^verbatim>\<open>void from_axis_angle(const Vector<Type, 3> &axis, Type theta)\<close>. The method
  writes the receiver \<open>q\<close>; the model returns the receiver after the call. The test on
  \<^verbatim>\<open>theta\<close> writes the identity and the four assignments after it run in every case.\<close>

definition from_axis_angle :: "quaternion \<Rightarrow> vector3 \<Rightarrow> real \<Rightarrow> quaternion" where
  "from_axis_angle q axis th =
    (let qa = (if th < 1 / 10 ^ 10 then Quaternion 1 0 0 0 else q);
         magnitude = sin (th / 2)
     in Quaternion (cos (th / 2)) (v0 axis * magnitude)
                   (v1 axis * magnitude) (v2 axis * magnitude))"

text \<open>\<^verbatim>\<open>void from_axis_angle(Vector<Type, 3> vec)\<close>: returns early on a small norm.\<close>

definition from_axis_angle_vec :: "quaternion \<Rightarrow> vector3 \<Rightarrow> quaternion" where
  "from_axis_angle_vec q vec =
    (let th = norm3 vec in
     if th < 1 / 10 ^ 10 then Quaternion 1 0 0 0
     else from_axis_angle q (div3 vec th) th)"

text \<open>The C library's \<^verbatim>\<open>atan2(y, x)\<close> on real arguments: the angle of the point
  \<open>(x, y)\<close> in \<open>(-\<pi>, \<pi>]\<close>, and 0 at the origin.\<close>

definition atan2 :: "real \<Rightarrow> real \<Rightarrow> real" where
  "atan2 y x =
    (if x > 0 then arctan (y / x)
     else if x < 0 then (if y \<ge> 0 then arctan (y / x) + pi else arctan (y / x) - pi)
     else if y > 0 then pi / 2
     else if y < 0 then - (pi / 2)
     else 0)"

text \<open>Modelled from the spec: \<^verbatim>\<open>wrap_pi\<close> of \<^verbatim>\<open>helper_functions.hpp\<close>, which is not part
  of the sources. The spec has the angle "wrapped into \<open>(-\<pi>, \<pi>]\<close>": the value that
  differs from \<open>x\<close> by a multiple of \<open>2\<pi>\<close> and lies in that interval.\<close>

definition wrap_pi :: "real \<Rightarrow> real" where
  "wrap_pi x = x - 2 * pi * of_int \<lceil>(x - pi) / (2 * pi)\<rceil>"

text \<open>\<^verbatim>\<open>Vector<Type, 3> to_axis_angle()\<close>.\<close>

definition to_axis_angle :: "quaternion \<Rightarrow> vector3" where
  "to_axis_angle q =
    (let axis_magnitude = sqrt (q1 q * q1 q + q2 q * q2 q + q3 q * q3 q);
         vec = Vector3 (q1 q) (q2 q) (q3 q)
     in if axis_magnitude \<ge> 1 / 10 ^ 10
        then scale3 (div3 vec axis_magnitude) (wrap_pi (2 * atan2 axis_magnitude (q0 q)))
        else vec)"

subsection \<open>The DCM conversion in the words of the specification\<close>

text \<open>The specification's choice among the diagonal elements: the largest one, and among
  equal largest ones the first in the order R00, R11, R22. The result is the index.\<close>

definition first_largest_diagonal :: "dcm \<Rightarrow> nat" where
  "first_largest_diagonal R =
    (let m = max (r00 R) (max (r11 R) (r22 R)) in
     if r00 R = m then 0 else if r11 R = m then 1 else 2)"

text \<open>The same choice with equal largest elements resolved to the last in that order.\<close>

definition last_largest_diagonal :: "dcm \<Rightarrow> nat" where
  "last_largest_diagonal R =
    (let m = max (r00 R) (max (r11 R) (r22 R)) in
     if r22 R = m then 2 else if r11 R = m then 1 else 0)"

text \<open>The trace formula: \<open>s = sqrt (1 + trace R)\<close>, \<open>w = 0.5 s\<close>, and the off-diagonal
  differences scaled by \<open>0.5 / s\<close>.\<close>

definition trace_extraction :: "dcm \<Rightarrow> quaternion" where
  "trace_extraction R =
    (let s = sqrt (1 + trace R) in
     Quaternion (0.5 * s)
                ((r21 R - r12 R) * (0.5 / s))
                ((r02 R - r20 R) * (0.5 / s))
                ((r10 R - r01 R) * (0.5 / s)))"

text \<open>The largest-diagonal formula for the diagonal element of index \<open>i\<close>: with
  \<open>s = sqrt (1 + R\<^sub>i\<^sub>i - R\<^sub>j\<^sub>j - R\<^sub>k\<^sub>k)\<close>, the imaginary component of that axis is \<open>s / 2\<close>, the
  real part is the off-diagonal difference of the other two axes over \<open>2 s\<close>, and the
  other two imaginary components are off-diagonal sums over \<open>2 s\<close>.\<close>

definition diagonal_extraction :: "nat \<Rightarrow> dcm \<Rightarrow> quaternion" where
  "diagonal_extraction i R =
    (if i = 0 then
       (let s = sqrt (1 + r00 R - r11 R - r22 R) in
        Quaternion ((r21 R - r12 R) / (2 * s)) (s / 2)
                   ((r01 R + r10 R) / (2 * s)) ((r02 R + r20 R) / (2 * s)))
     else if i = 1 then
       (let s = sqrt (1 + r11 R - r00 R - r22 R) in
        Quaternion ((r02 R - r20 R) / (2 * s)) ((r01 R + r10 R) / (2 * s))
                   (s / 2) ((r12 R + r21 R) / (2 * s)))
     else
       (let s = sqrt (1 + r22 R - r00 R - r11 R) in
        Quaternion ((r10 R - r01 R) / (2 * s)) ((r02 R + r20 R) / (2 * s))
                   ((r12 R + r21 R) / (2 * s)) (s / 2)))"

subsection \<open>The product and the dot product in binary32\<close>

text \<open>A finite binary32 value is \<open>m * 2\<^sup>e\<close> with integers \<open>m\<close> and \<open>e\<close> and \<open>\<bar>m\<bar> < 2\<^sup>2\<^sup>4\<close>;
  the pair need not be normalised. The exponent range is not modelled, so the
  definitions stand for the source where no intermediate result overflows or is
  subnormal.\<close>

datatype float32 = Float32 (significand: int) (exponent: int)

text \<open>The real number a pair stands for.\<close>

definition valof :: "float32 \<Rightarrow> real" where
  "valof x =
    (if 0 \<le> exponent x then of_int (significand x) * 2 ^ nat (exponent x)
     else of_int (significand x) / 2 ^ nat (- exponent x))"

text \<open>The number of binary digits of a positive integer.\<close>

function bit_length :: "int \<Rightarrow> int" where
  "bit_length n = (if n \<le> 0 then 0 else 1 + bit_length (n div 2))"
  by pat_completeness auto
termination
  by (relation "measure nat") auto

declare bit_length.simps [simp del]

text \<open>Rounding of the exact value \<open>m * 2\<^sup>e\<close> to 24 significant bits, to nearest, ties
  to the even significand: the low \<open>k\<close> bits are dropped and the rest is incremented
  when the dropped part exceeds half, or equals half with an odd rest.\<close>

definition round32 :: "int \<Rightarrow> int \<Rightarrow> float32" where
  "round32 m e =
    (let a = \<bar>m\<bar>; k = bit_length a - 24 in
     if k \<le> 0 then Float32 m e
     else
       (let q = a div 2 ^ nat k; r = a mod 2 ^ nat k; h = 2 ^ nat (k - 1);
            n = (if h < r \<or> (r = h \<and> odd q) then q + 1 else q)
        in Float32 (sgn m * n) (e + k)))"

text \<open>The three operations of \<^verbatim>\<open>float\<close> that \<^verbatim>\<open>operator*\<close> uses: the exact product, sum
  and difference of two values are again of the form \<open>m * 2\<^sup>e\<close>, and are rounded once.\<close>

definition mul32 :: "float32 \<Rightarrow> float32 \<Rightarrow> float32" where
  "mul32 x y = round32 (significand x * significand y) (exponent x + exponent y)"

definition add32 :: "float32 \<Rightarrow> float32 \<Rightarrow> float32" where
  "add32 x y =
    (let e = min (exponent x) (exponent y) in
     round32 (significand x * 2 ^ nat (exponent x - e)
              + significand y * 2 ^ nat (exponent y - e)) e)"

definition sub32 :: "float32 \<Rightarrow> float32 \<Rightarrow> float32" where
  "sub32 x y =
    (let e = min (exponent x) (exponent y) in
     round32 (significand x * 2 ^ nat (exponent x - e)
              - significand y * 2 ^ nat (exponent y - e)) e)"

text \<open>\<^verbatim>\<open>Quatf\<close>, that is \<^verbatim>\<open>Quaternion<float>\<close>.\<close>

datatype quatf = Quatf (f0: float32) (f1: float32) (f2: float32) (f3: float32)

text \<open>\<^verbatim>\<open>Quaternion operator*(const Quaternion &q) const\<close> at \<^verbatim>\<open>Type = float\<close>: the four
  lines of the source, each product rounded, each sum and difference rounded, from
  left to right as C++ associates them.\<close>

definition operator_mul_f :: "quatf \<Rightarrow> quatf \<Rightarrow> quatf" where
  "operator_mul_f p q = Quatf
     (sub32 (sub32 (sub32 (mul32 (f0 p) (f0 q)) (mul32 (f1 p) (f1 q))) (mul32 (f2 p) (f2 q)))
            (mul32 (f3 p) (f3 q)))
     (sub32 (add32 (add32 (mul32 (f0 p) (f1 q)) (mul32 (f1 p) (f0 q))) (mul32 (f2 p) (f3 q)))
            (mul32 (f3 p) (f2 q)))
     (add32 (add32 (sub32 (mul32 (f0 p) (f2 q)) (mul32 (f1 p) (f3 q))) (mul32 (f2 p) (f0 q)))
            (mul32 (f3 p) (f1 q)))
     (add32 (sub32 (add32 (mul32 (f0 p) (f3 q)) (mul32 (f1 p) (f2 q))) (mul32 (f2 p) (f1 q)))
            (mul32 (f3 p) (f0 q)))"

text \<open>Modelled from the spec: the dot product of \<^verbatim>\<open>Vector\<close> at \<^verbatim>\<open>Type = float\<close>, the
  componentwise products summed from index 0 upward, each operation rounded.\<close>

definition dot_f :: "quatf \<Rightarrow> quatf \<Rightarrow> float32" where
  "dot_f p q =
     add32 (add32 (add32 (mul32 (f0 p) (f0 q)) (mul32 (f1 p) (f1 q))) (mul32 (f2 p) (f2 q)))
           (mul32 (f3 p) (f3 q))"

text \<open>Three values of \<^verbatim>\<open>Quatf\<close> used as inputs below: \<open>(0.5, 0.5, 0.5, 0.5)\<close>; \<open>(0, 0.6f, 0.8f, 0)\<close>,
  with the binary32 values of the two literals; and a quaternion with two nonzero
  components.\<close>

abbreviation all_halves :: quatf where
  "all_halves \<equiv> Quatf (Float32 1 (- 1)) (Float32 1 (- 1)) (Float32 1 (- 1)) (Float32 1 (- 1))"

abbreviation three_four_fifths :: quatf where
  "three_four_fifths \<equiv>
     Quatf (Float32 0 0) (Float32 10066330 (- 24)) (Float32 13421773 (- 24)) (Float32 0 0)"

abbreviation two_components :: quatf where
  "two_components \<equiv>
     Quatf (Float32 64983 (- 16)) (Float32 543725 (- 22)) (Float32 0 0) (Float32 0 0)"

section \<open>Properties\<close>

subsection \<open>The Hamilton product\<close>

lemma operator_mul_sel [simp]:
  "q0 (operator_mul p q) = q0 p * q0 q - q1 p * q1 q - q2 p * q2 q - q3 p * q3 q"
  "q1 (operator_mul p q) = q0 p * q1 q + q1 p * q0 q + q2 p * q3 q - q3 p * q2 q"
  "q2 (operator_mul p q) = q0 p * q2 q - q1 p * q3 q + q2 p * q0 q + q3 p * q1 q"
  "q3 (operator_mul p q) = q0 p * q3 q + q1 p * q2 q - q2 p * q1 q + q3 p * q0 q"
  by (simp_all add: operator_mul_def)

text \<open>
  C4. For all quaternions \<open>p\<close>, \<open>q\<close> the product \<open>p*q\<close> has the four components of the
  Hamilton product, and the product is not commutative: there are \<open>p\<close>, \<open>q\<close> with
  \<open>p*q \<noteq> q*p\<close>.
\<close>

theorem hamilton_product:
  "(\<forall>a0 a1 a2 a3 b0 b1 b2 b3.
      operator_mul (Quaternion a0 a1 a2 a3) (Quaternion b0 b1 b2 b3) =
        Quaternion (a0 * b0 - a1 * b1 - a2 * b2 - a3 * b3)
                   (a0 * b1 + a1 * b0 + a2 * b3 - a3 * b2)
                   (a0 * b2 - a1 * b3 + a2 * b0 + a3 * b1)
                   (a0 * b3 + a1 * b2 - a2 * b1 + a3 * b0))
   \<and> (\<exists>p q. operator_mul p q \<noteq> operator_mul q p)"
proof
  show "\<forall>a0 a1 a2 a3 b0 b1 b2 b3.
      operator_mul (Quaternion a0 a1 a2 a3) (Quaternion b0 b1 b2 b3) =
        Quaternion (a0 * b0 - a1 * b1 - a2 * b2 - a3 * b3)
                   (a0 * b1 + a1 * b0 + a2 * b3 - a3 * b2)
                   (a0 * b2 - a1 * b3 + a2 * b0 + a3 * b1)
                   (a0 * b3 + a1 * b2 - a2 * b1 + a3 * b0)"
    by (simp add: operator_mul_def)
next
  have "operator_mul (Quaternion 0 1 0 0) (Quaternion 0 0 1 0) \<noteq>
        operator_mul (Quaternion 0 0 1 0) (Quaternion 0 1 0 0)"
    by (simp add: operator_mul_def)
  then show "\<exists>p q. operator_mul p q \<noteq> operator_mul q p"
    by blast
qed

lemma operator_mul_assoc:
  "operator_mul (operator_mul p q) r = operator_mul p (operator_mul q r)"
  by (simp add: operator_mul_def algebra_simps)

lemma operator_mul_one_right: "operator_mul q (Quaternion 1 0 0 0) = q"
  by (cases q) (simp add: operator_mul_def)

lemma operator_mul_one_left: "operator_mul (Quaternion 1 0 0 0) q = q"
  by (cases q) (simp add: operator_mul_def)

lemma dot_self_zero_iff: "dot q q = 0 \<longleftrightarrow> q = Quaternion 0 0 0 0"
proof (cases q)
  case (Quaternion a b c d)
  have "a * a + b * b + c * c + d * d = 0 \<longleftrightarrow> a = 0 \<and> b = 0 \<and> c = 0 \<and> d = 0"
    by (simp add: add_nonneg_eq_0_iff)
  with Quaternion show ?thesis by (simp add: dot_def)
qed

lemma dot_operator_mul:
  "dot (operator_mul p q) (operator_mul p q) = dot p p * dot q q"
  by (simp add: dot_def algebra_simps)

subsection \<open>Rounding to binary32\<close>

text \<open>\<open>round32\<close> is exact on values that fit 24 bits, and otherwise returns a
  significand of 24 bits whose value is within half a unit in the last place.\<close>

lemma bit_length_nonpos: "n \<le> 0 \<Longrightarrow> bit_length n = 0"
  by (subst bit_length.simps) simp

lemma bit_length_pos: "0 < n \<Longrightarrow> bit_length n = 1 + bit_length (n div 2)"
  by (subst bit_length.simps) simp

lemma bit_length_nonneg: "0 \<le> bit_length n"
proof (induction n rule: bit_length.induct)
  case (1 n)
  show ?case
  proof (cases "n \<le> 0")
    case True
    then show ?thesis by (simp add: bit_length_nonpos)
  next
    case False
    with "1.IH" have "0 \<le> bit_length (n div 2)" by simp
    with False show ?thesis by (simp add: bit_length_pos)
  qed
qed

lemma bit_length_upper: "0 \<le> n \<Longrightarrow> n < 2 ^ nat (bit_length n)"
proof (induction n rule: bit_length.induct)
  case (1 n)
  show ?case
  proof (cases "n \<le> 0")
    case True
    with "1.prems" show ?thesis by (simp add: bit_length_nonpos)
  next
    case False
    then have h: "n div 2 < 2 ^ nat (bit_length (n div 2))"
      using "1.IH" by simp
    have "n < 2 * (n div 2 + 1)" by presburger
    also have "\<dots> \<le> 2 * 2 ^ nat (bit_length (n div 2))" using h by simp
    also have "\<dots> = 2 ^ nat (1 + bit_length (n div 2))"
      using bit_length_nonneg [of "n div 2"] by (simp add: nat_add_distrib)
    also have "1 + bit_length (n div 2) = bit_length n"
      using False by (simp add: bit_length_pos)
    finally show ?thesis .
  qed
qed

lemma bit_length_lower: "0 < n \<Longrightarrow> 2 ^ nat (bit_length n - 1) \<le> n"
proof (induction n rule: bit_length.induct)
  case (1 n)
  from "1.prems" have nz: "\<not> n \<le> 0" by simp
  have bl: "bit_length n = 1 + bit_length (n div 2)"
    using "1.prems" by (rule bit_length_pos)
  show ?case
  proof (cases "n div 2 = 0")
    case True
    then have "bit_length (n div 2) = 0" by (simp add: bit_length_nonpos)
    with bl "1.prems" show ?thesis by simp
  next
    case False
    with "1.prems" have p: "0 < n div 2" by presburger
    have ih: "2 ^ nat (bit_length (n div 2) - 1) \<le> n div 2"
      using "1.IH" [OF nz p] .
    have "bit_length (n div 2) = 1 + bit_length (n div 2 div 2)"
      using p by (rule bit_length_pos)
    with bit_length_nonneg [of "n div 2 div 2"] have "0 < bit_length (n div 2)"
      by simp
    then have "nat (bit_length n - 1) = Suc (nat (bit_length (n div 2) - 1))"
      using bl by simp
    then have "(2::int) ^ nat (bit_length n - 1) = 2 * 2 ^ nat (bit_length (n div 2) - 1)"
      by simp
    also have "\<dots> \<le> 2 * (n div 2)" using ih by simp
    also have "\<dots> \<le> n" by presburger
    finally show ?thesis .
  qed
qed

lemma round32_exact:
  assumes "\<bar>m\<bar> < 2 ^ 24"
  shows "round32 m e = Float32 m e"
proof (cases "m = 0")
  case True
  then show ?thesis by (simp add: round32_def bit_length_nonpos)
next
  case False
  then have "0 < \<bar>m\<bar>" by simp
  from bit_length_lower [OF this] assms
  have "(2::int) ^ nat (bit_length \<bar>m\<bar> - 1) < 2 ^ 24" by linarith
  then have "nat (bit_length \<bar>m\<bar> - 1) < 24"
    by (rule power_less_imp_less_exp [rotated]) simp
  then have "bit_length \<bar>m\<bar> - 24 \<le> 0" by linarith
  then show ?thesis by (simp add: round32_def Let_def)
qed

lemma round_step:
  fixes a P h q r :: int
  assumes a: "a = q * P + r" and r: "0 \<le> r" "r < P" and P: "P = 2 * h"
  shows "2 * \<bar>(if h < r \<or> (r = h \<and> odd q) then q + 1 else q) * P - a\<bar> \<le> P"
proof (cases "h < r \<or> (r = h \<and> odd q)")
  case True
  then have hr: "h \<le> r" by auto
  have e: "(q + 1) * P - a = P - r"
    using a by (simp add: algebra_simps)
  have "\<bar>P - r\<bar> = P - r" using r by simp
  moreover have "2 * (P - r) \<le> P" using hr P by simp
  ultimately have "2 * \<bar>P - r\<bar> \<le> P" by (simp only:)
  then have "2 * \<bar>(q + 1) * P - a\<bar> \<le> P" by (simp only: e)
  with True show ?thesis by (simp only: if_True)
next
  case False
  then have hr: "r \<le> h" by auto
  have e: "q * P - a = - r"
    using a by simp
  have "\<bar>- r\<bar> = r" using r by simp
  moreover have "2 * r \<le> P" using hr P by simp
  ultimately have "2 * \<bar>- r\<bar> \<le> P" by (simp only:)
  then have "2 * \<bar>q * P - a\<bar> \<le> P" by (simp only: e)
  with False show ?thesis by (simp only: if_False)
qed

lemma round32_nearest:
  assumes "round32 m e = Float32 s e'"
  shows "e \<le> e' \<and> \<bar>s\<bar> \<le> 2 ^ 24 \<and> 2 * \<bar>s * 2 ^ nat (e' - e) - m\<bar> \<le> 2 ^ nat (e' - e)
         \<and> (e < e' \<longrightarrow> 2 ^ 23 \<le> \<bar>s\<bar>)"
proof (cases "bit_length \<bar>m\<bar> - 24 \<le> 0")
  case True
  with assms have eq: "s = m" "e' = e" by (simp_all add: round32_def Let_def)
  have "\<bar>m\<bar> < 2 ^ nat (bit_length \<bar>m\<bar>)" by (rule bit_length_upper) simp
  also have "\<dots> \<le> 2 ^ 24"
    using True by (intro power_increasing) simp_all
  finally show ?thesis using eq by simp
next
  case False
  define k where "k = bit_length \<bar>m\<bar> - 24"
  define P :: int where "P = 2 ^ nat k"
  define h :: int where "h = 2 ^ nat (k - 1)"
  define q where "q = \<bar>m\<bar> div P"
  define r where "r = \<bar>m\<bar> mod P"
  define n where "n = (if h < r \<or> (r = h \<and> odd q) then q + 1 else q)"
  from False have kp: "0 < k" by (simp add: k_def)
  then have "nat k = Suc (nat (k - 1))" by simp
  then have Ph: "P = 2 * h" by (simp add: P_def h_def)
  have Pp: "0 < P" by (simp add: P_def)
  have "round32 m e = Float32 (sgn m * n) (e + k)"
    unfolding round32_def Let_def n_def q_def r_def P_def h_def k_def
    using False by (rule if_not_P)
  with assms have eq: "s = sgn m * n" "e' = e + k" by simp_all
  have a: "\<bar>m\<bar> = q * P + r" by (simp add: q_def r_def)
  have r: "0 \<le> r" "r < P" using Pp by (simp_all add: r_def)
  have near: "2 * \<bar>n * P - \<bar>m\<bar>\<bar> \<le> P"
    unfolding n_def by (rule round_step [OF a r Ph])
  have up: "\<bar>m\<bar> < 2 ^ nat (bit_length \<bar>m\<bar>)" by (rule bit_length_upper) simp
  have "nat (bit_length \<bar>m\<bar>) = nat k + 24" using kp by (simp add: k_def)
  then have up': "\<bar>m\<bar> < 2 ^ 24 * P" using up by (simp add: P_def power_add)
  have q_hi: "q < 2 ^ 24"
  proof (rule ccontr)
    assume "\<not> q < 2 ^ 24"
    then have "2 ^ 24 * P \<le> q * P" using Pp by (intro mult_right_mono) simp_all
    with a r up' show False by linarith
  qed
  have mp: "0 < \<bar>m\<bar>"
  proof (cases "m = 0")
    case True
    with kp show ?thesis by (simp add: k_def bit_length_nonpos)
  qed simp
  have "nat (bit_length \<bar>m\<bar> - 1) = nat k + 23" using kp by (simp add: k_def)
  with bit_length_lower [OF mp] have lo: "2 ^ 23 * P \<le> \<bar>m\<bar>"
    by (simp add: P_def power_add mult.commute)
  have q_lo: "2 ^ 23 \<le> q"
  proof (rule ccontr)
    assume "\<not> 2 ^ 23 \<le> q"
    then have "q + 1 \<le> 2 ^ 23" by simp
    then have "(q + 1) * P \<le> 2 ^ 23 * P" using Pp by (intro mult_right_mono) simp_all
    moreover have "(q + 1) * P = q * P + P" by (simp add: algebra_simps)
    ultimately show False using a r lo by linarith
  qed
  have n_bounds: "2 ^ 23 \<le> n" "n \<le> 2 ^ 24"
    using q_lo q_hi by (auto simp add: n_def)
  have mz: "m \<noteq> 0" using mp by simp
  have sn: "\<bar>s\<bar> = n"
    using mz n_bounds by (simp add: eq abs_mult)
  have diff: "\<bar>s * P - m\<bar> = \<bar>n * P - \<bar>m\<bar>\<bar>"
  proof (cases "0 < m")
    case True then show ?thesis by (simp add: eq)
  next
    case False
    with mz have "m < 0" by simp
    then have "s * P - m = - (n * P - \<bar>m\<bar>)" by (simp add: eq)
    then show ?thesis by simp
  qed
  have ee: "nat (e' - e) = nat k" by (simp add: eq)
  show ?thesis
    unfolding ee P_def [symmetric] diff sn
    using near n_bounds kp by (simp add: eq(2))
qed

text \<open>The literals \<^verbatim>\<open>0.6f\<close> and \<^verbatim>\<open>0.8f\<close> are \<open>10066330 * 2\<^sup>-\<^sup>2\<^sup>4\<close> and \<open>13421773 * 2\<^sup>-\<^sup>2\<^sup>4\<close>: each
  is within half a unit in the last place (\<open>2\<^sup>-\<^sup>2\<^sup>5\<close>) of the decimal.\<close>

lemma literals_binary32:
  "\<bar>valof (Float32 10066330 (- 24)) - 3 / 5\<bar> \<le> 1 / 2 ^ 25
   \<and> \<bar>valof (Float32 13421773 (- 24)) - 4 / 5\<bar> \<le> 1 / 2 ^ 25"
  by (simp add: valof_def)

text \<open>
  C10, as stated, on the arithmetic of \<^verbatim>\<open>Quatf\<close>. With \<open>p = (0.5, 0.5, 0.5, 0.5)\<close> and
  \<open>q = (0, 0.6f, 0.8f, 0)\<close> the computed squared norms of \<open>p\<close> and of \<open>q\<close> are exactly 1,
  and so is their computed product, but the computed squared norm of \<open>p*q\<close> is
  \<open>1 + 2\<^sup>-\<^sup>2\<^sup>3\<close>: the product of two unit quaternions is not a unit quaternion there, and
  the squared norm of the product is not the product of the squared norms.
\<close>

theorem norm_binary32_counterexample:
  "valof (dot_f all_halves all_halves) = 1
   \<and> valof (dot_f three_four_fifths three_four_fifths) = 1
   \<and> valof (mul32 (dot_f all_halves all_halves) (dot_f three_four_fifths three_four_fifths)) = 1
   \<and> valof (dot_f (operator_mul_f all_halves three_four_fifths) (operator_mul_f all_halves three_four_fifths)) = 1 + 1 / 2 ^ 23
   \<and> valof (dot_f (operator_mul_f all_halves three_four_fifths) (operator_mul_f all_halves three_four_fifths)) \<noteq>
       valof (mul32 (dot_f all_halves all_halves) (dot_f three_four_fifths three_four_fifths))"
proof -
  have p: "dot_f all_halves all_halves = Float32 4 (- 2)"
    by code_simp
  have q: "dot_f three_four_fifths three_four_fifths = Float32 8388608 (- 23)"
    by code_simp
  have pq: "mul32 (Float32 4 (- 2)) (Float32 8388608 (- 23)) = Float32 8388608 (- 23)"
    by code_simp
  have r: "dot_f (operator_mul_f all_halves three_four_fifths) (operator_mul_f all_halves three_four_fifths) = Float32 8388609 (- 23)"
    by code_simp
  show ?thesis
    unfolding p q pq r by (simp add: valof_def)
qed

text \<open>The same at an input with two nonzero components, where the order in which the
  dot product sums its terms cannot matter: \<open>p = (64983 * 2\<^sup>-\<^sup>1\<^sup>6, 543725 * 2\<^sup>-\<^sup>2\<^sup>2, 0, 0)\<close>
  has the computed squared norm 1 and \<open>p*p\<close> has \<open>1 + 2\<^sup>-\<^sup>2\<^sup>3\<close>.\<close>

lemma norm_binary32_two_components:
  "valof (dot_f two_components two_components) = 1
   \<and> valof (dot_f (operator_mul_f two_components two_components) (operator_mul_f two_components two_components)) = 1 + 1 / 2 ^ 23"
proof -
  have p: "dot_f two_components two_components = Float32 8388608 (- 23)"
    by code_simp
  have r: "dot_f (operator_mul_f two_components two_components) (operator_mul_f two_components two_components) = Float32 8388609 (- 23)"
    by code_simp
  show ?thesis
    unfolding p r by (simp add: valof_def)
qed

text \<open>
  C10, amended. In exact arithmetic the product is norm-multiplicative: for every
  pair \<open>p\<close>, \<open>q\<close> the squared norm of \<open>p*q\<close> is the product of the squared norms of \<open>p\<close>
  and \<open>q\<close>; in particular the exact product of two unit quaternions is a unit
  quaternion. (In binary32 each operation rounds and the norm drifts, as shown above;
  the caller renormalizes.)
\<close>

theorem norm_multiplicative:
  "dot (operator_mul p q) (operator_mul p q) = dot p p * dot q q
   \<and> (dot p p = 1 \<and> dot q q = 1 \<longrightarrow> dot (operator_mul p q) (operator_mul p q) = 1)"
  by (simp add: dot_operator_mul)

theorem norm_multiplicative_witness:
  "dot (Quaternion (1/2) (1/2) (1/2) (1/2)) (Quaternion (1/2) (1/2) (1/2) (1/2)) = 1
   \<and> dot (Quaternion 0 (3/5) (4/5) 0) (Quaternion 0 (3/5) (4/5) 0) = 1
   \<and> dot (operator_mul (Quaternion (1/2) (1/2) (1/2) (1/2)) (Quaternion 0 (3/5) (4/5) 0))
          (operator_mul (Quaternion (1/2) (1/2) (1/2) (1/2)) (Quaternion 0 (3/5) (4/5) 0)) = 1"
proof -
  have p: "dot (Quaternion (1/2) (1/2) (1/2) (1/2)) (Quaternion (1/2) (1/2) (1/2) (1/2)) = 1"
    by (simp add: dot_def)
  have q: "dot (Quaternion 0 (3/5) (4/5) 0) (Quaternion 0 (3/5) (4/5) 0) = 1"
    by (simp add: dot_def)
  from norm_multiplicative [of "Quaternion (1/2) (1/2) (1/2) (1/2)" "Quaternion 0 (3/5) (4/5) 0"] p q
  show ?thesis by blast
qed

subsection \<open>Inversion and conjugation\<close>

lemma inversed_Some:
  assumes "q \<noteq> Quaternion 0 0 0 0"
  shows "inversed q = Some (Quaternion (q0 q / dot q q) (- q1 q / dot q q)
                                       (- q2 q / dot q q) (- q3 q / dot q q))"
  using assms by (simp add: inversed_def Let_def dot_self_zero_iff)

lemma sum_squares_over_sum:
  fixes a b c d n :: real
  assumes "n \<noteq> 0" and "a * a + b * b + c * c + d * d = n"
  shows "a * (a / n) + b * (b / n) + c * (c / n) + d * (d / n) = 1"
proof -
  have "a * (a / n) + b * (b / n) + c * (c / n) + d * (d / n)
        = (a * a + b * b + c * c + d * d) / n"
    by (simp add: add_divide_distrib)
  with assms show ?thesis by simp
qed

lemma mul_inverse_components:
  assumes "dot q q \<noteq> 0"
  shows "operator_mul q (Quaternion (q0 q / dot q q) (- q1 q / dot q q)
                                    (- q2 q / dot q q) (- q3 q / dot q q))
         = Quaternion 1 0 0 0"
proof -
  obtain a b c d where q: "q = Quaternion a b c d" by (cases q)
  define n where "n = dot q q"
  have d: "a * a + b * b + c * c + d * d = n"
    by (simp add: q dot_def n_def)
  from assms have n: "n \<noteq> 0" by (simp add: n_def)
  note r = sum_squares_over_sum [OF n d]
  show ?thesis
    unfolding n_def [symmetric] using r by (simp add: q operator_mul_def algebra_simps)
qed

text \<open>
  C5. For every nonzero \<open>q\<close>, \<open>inversed\<close> returns the conjugate \<open>(q0, -q1, -q2, -q3)\<close>
  divided componentwise by the squared norm \<open>q0\<^sup>2 + q1\<^sup>2 + q2\<^sup>2 + q3\<^sup>2\<close>, and \<open>q\<close> times
  that is the identity \<open>(1,0,0,0)\<close>. The division is not guarded: at the zero quaternion
  no real number is returned.
\<close>

theorem inversed_formula:
  "(q \<noteq> Quaternion 0 0 0 0 \<longrightarrow>
      inversed q = Some (Quaternion
          (q0 q / ((q0 q)\<^sup>2 + (q1 q)\<^sup>2 + (q2 q)\<^sup>2 + (q3 q)\<^sup>2))
          (- q1 q / ((q0 q)\<^sup>2 + (q1 q)\<^sup>2 + (q2 q)\<^sup>2 + (q3 q)\<^sup>2))
          (- q2 q / ((q0 q)\<^sup>2 + (q1 q)\<^sup>2 + (q2 q)\<^sup>2 + (q3 q)\<^sup>2))
          (- q3 q / ((q0 q)\<^sup>2 + (q1 q)\<^sup>2 + (q2 q)\<^sup>2 + (q3 q)\<^sup>2)))
      \<and> map_option (operator_mul q) (inversed q) = Some (Quaternion 1 0 0 0))
   \<and> inversed (Quaternion 0 0 0 0) = None"
proof (intro conjI impI)
  assume nz: "q \<noteq> Quaternion 0 0 0 0"
  have d: "dot q q = (q0 q)\<^sup>2 + (q1 q)\<^sup>2 + (q2 q)\<^sup>2 + (q3 q)\<^sup>2"
    by (simp add: dot_def power2_eq_square)
  from inversed_Some [OF nz] show "inversed q = Some (Quaternion
          (q0 q / ((q0 q)\<^sup>2 + (q1 q)\<^sup>2 + (q2 q)\<^sup>2 + (q3 q)\<^sup>2))
          (- q1 q / ((q0 q)\<^sup>2 + (q1 q)\<^sup>2 + (q2 q)\<^sup>2 + (q3 q)\<^sup>2))
          (- q2 q / ((q0 q)\<^sup>2 + (q1 q)\<^sup>2 + (q2 q)\<^sup>2 + (q3 q)\<^sup>2))
          (- q3 q / ((q0 q)\<^sup>2 + (q1 q)\<^sup>2 + (q2 q)\<^sup>2 + (q3 q)\<^sup>2)))"
    unfolding d .
  from nz have "dot q q \<noteq> 0" by (simp add: dot_self_zero_iff)
  from mul_inverse_components [OF this] inversed_Some [OF nz]
  show "map_option (operator_mul q) (inversed q) = Some (Quaternion 1 0 0 0)"
    by simp
next
  show "inversed (Quaternion 0 0 0 0) = None"
    by (simp add: inversed_def dot_def)
qed

theorem inversed_formula_witness:
  "Quaternion 1 2 3 4 \<noteq> Quaternion 0 0 0 0
   \<and> inversed (Quaternion 1 2 3 4) = Some (Quaternion (1/30) (- 2/30) (- 3/30) (- 4/30))
   \<and> map_option (operator_mul (Quaternion 1 2 3 4)) (inversed (Quaternion 1 2 3 4))
       = Some (Quaternion 1 0 0 0)"
  using inversed_formula [of "Quaternion 1 2 3 4"] by (simp add: operator_mul_def)

lemma inversed_unit:
  assumes "dot q q = 1"
  shows "inversed q = Some (Quaternion (q0 q) (- q1 q) (- q2 q) (- q3 q))"
  using assms by (simp add: inversed_def)

lemma dot_conj: "dot (Quaternion (q0 q) (- q1 q) (- q2 q) (- q3 q))
                     (Quaternion (q0 q) (- q1 q) (- q2 q) (- q3 q)) = dot q q"
  by (simp add: dot_def)

lemma conj_mul_self:
  "operator_mul (Quaternion (q0 q) (- q1 q) (- q2 q) (- q3 q)) q = Quaternion (dot q q) 0 0 0"
  by (simp add: operator_mul_def dot_def algebra_simps)

lemma self_mul_conj:
  "operator_mul q (Quaternion (q0 q) (- q1 q) (- q2 q) (- q3 q)) = Quaternion (dot q q) 0 0 0"
  by (simp add: operator_mul_def dot_def algebra_simps)

lemma sandwich_real_part:
  "q0 (operator_mul (operator_mul q (Quaternion 0 x y z))
                    (Quaternion (q0 q) (- q1 q) (- q2 q) (- q3 q))) = 0"
  by (simp add: algebra_simps)

text \<open>
  C6. For every unit quaternion \<open>q\<close> and every 3-vector \<open>v\<close>, conjugating \<open>v\<close> with \<open>q\<close>
  and then with \<open>q.inversed()\<close> gives \<open>v\<close> back, exactly.
\<close>

theorem inverse_law:
  assumes "dot q q = 1"
  shows "Option.bind (conjugate q v)
           (\<lambda>u. Option.bind (inversed q) (\<lambda>qi. conjugate qi u)) = Some v"
proof -
  define qc where "qc = Quaternion (q0 q) (- q1 q) (- q2 q) (- q3 q)"
  define pv where "pv = Quaternion 0 (v0 v) (v1 v) (v2 v)"
  define res where "res = operator_mul (operator_mul q pv) qc"
  have qc_sel: "q0 qc = q0 q" "q1 qc = - q1 q" "q2 qc = - q2 q" "q3 qc = - q3 q"
    by (simp_all add: qc_def)
  have inv_q: "inversed q = Some qc"
    using inversed_unit [OF assms] by (simp add: qc_def)
  have dqc: "dot qc qc = 1"
    using dot_conj [of q] assms by (simp add: qc_def)
  have inv_qc: "inversed qc = Some q"
    using inversed_unit [OF dqc] by (cases q) (simp add: qc_sel)
  have re: "q0 res = 0"
    unfolding res_def pv_def qc_def by (rule sandwich_real_part)
  have res_eq: "Quaternion 0 (q1 res) (q2 res) (q3 res) = res"
    using re by (cases res) simp
  have c1: "conjugate q v = Some (Vector3 (q1 res) (q2 res) (q3 res))"
    by (simp add: conjugate_def inv_q res_def pv_def Let_def)
  have one: "operator_mul qc q = Quaternion 1 0 0 0"
    using conj_mul_self [of q] assms by (simp add: qc_def)
  have "operator_mul (operator_mul qc res) q
        = operator_mul (operator_mul qc q) (operator_mul pv (operator_mul qc q))"
    by (simp add: res_def operator_mul_assoc)
  then have round_trip: "operator_mul (operator_mul qc res) q = pv"
    by (simp add: one operator_mul_one_left operator_mul_one_right)
  have c2: "conjugate qc (Vector3 (q1 res) (q2 res) (q3 res))
            = Some (Vector3 (q1 pv) (q2 pv) (q3 pv))"
    unfolding conjugate_def Let_def inv_qc option.case vector3.sel res_eq round_trip ..
  have "Vector3 (q1 pv) (q2 pv) (q3 pv) = v"
    by (cases v) (simp add: pv_def)
  with c2 have c3: "conjugate qc (Vector3 (q1 res) (q2 res) (q3 res)) = Some v"
    by simp
  show ?thesis
    by (simp add: c1 inv_q c3)
qed

theorem inverse_law_witness:
  "dot (Quaternion (1/2) (1/2) (1/2) (1/2)) (Quaternion (1/2) (1/2) (1/2) (1/2)) = 1
   \<and> Option.bind (conjugate (Quaternion (1/2) (1/2) (1/2) (1/2)) (Vector3 1 2 3))
       (\<lambda>u. Option.bind (inversed (Quaternion (1/2) (1/2) (1/2) (1/2)))
          (\<lambda>qi. conjugate qi u)) = Some (Vector3 1 2 3)"
proof -
  have u: "dot (Quaternion (1/2) (1/2) (1/2) (1/2)) (Quaternion (1/2) (1/2) (1/2) (1/2)) = 1"
    by (simp add: dot_def)
  from u inverse_law [OF u, of "Vector3 1 2 3"] show ?thesis by blast
qed

subsection \<open>The identity quaternion\<close>

text \<open>
  C9. The standard constructor gives the identity \<open>(1,0,0,0)\<close>; for every \<open>q\<close>,
  \<open>q * identity = q\<close>; the inverse of the identity is the identity; conjugating any
  3-vector with the identity returns the vector.
\<close>

theorem identity_laws:
  "Quaternion_default = Quaternion 1 0 0 0
   \<and> (\<forall>q. operator_mul q Quaternion_default = q)
   \<and> inversed Quaternion_default = Some Quaternion_default
   \<and> (\<forall>vec. conjugate Quaternion_default vec = Some vec)"
proof (intro conjI allI)
  show "Quaternion_default = Quaternion 1 0 0 0"
    by (simp add: Quaternion_default_def)
next
  fix q show "operator_mul q Quaternion_default = q"
    by (simp add: Quaternion_default_def operator_mul_one_right)
next
  show "inversed Quaternion_default = Some Quaternion_default"
    by (simp add: Quaternion_default_def inversed_def dot_def)
next
  fix vec
  have "inversed Quaternion_default = Some (Quaternion 1 0 0 0)"
    by (simp add: Quaternion_default_def inversed_def dot_def)
  then show "conjugate Quaternion_default vec = Some vec"
    by (cases vec) (simp add: conjugate_def Quaternion_default_def operator_mul_def)
qed

subsection \<open>Derivatives\<close>

text \<open>
  C7. For every \<open>q\<close> and angular velocity \<open>w\<close>, \<open>derivative1\<close> is \<open>0.5 * q * (0,w)\<close> and
  \<open>derivative2\<close> is \<open>0.5 * (0,w) * q\<close>; at \<open>w = (0,0,0)\<close> both are the zero 4-vector.
\<close>

theorem derivative_formulas:
  "derivative1 q w = scale4 (1/2) (operator_mul q (Quaternion 0 (v0 w) (v1 w) (v2 w)))
   \<and> derivative2 q w = scale4 (1/2) (operator_mul (Quaternion 0 (v0 w) (v1 w) (v2 w)) q)
   \<and> derivative1 q (Vector3 0 0 0) = Quaternion 0 0 0 0
   \<and> derivative2 q (Vector3 0 0 0) = Quaternion 0 0 0 0"
  by (simp add: derivative1_def derivative2_def operator_mul_scalar_def scale4_def
      operator_mul_def)

subsection \<open>From Euler angles\<close>

text \<open>
  C8. For every Euler triple the constructed quaternion is the 4-term half-angle
  formula of the 3-2-1 sequence. The equation has no side condition: it holds at
  every input, \<open>theta = \<plusminus>\<pi>/2\<close> included.
\<close>

theorem euler_to_quaternion:
  "Quaternion_from_euler (Euler ph th ps) =
     Quaternion
       (cos (ph / 2) * cos (th / 2) * cos (ps / 2) + sin (ph / 2) * sin (th / 2) * sin (ps / 2))
       (sin (ph / 2) * cos (th / 2) * cos (ps / 2) - cos (ph / 2) * sin (th / 2) * sin (ps / 2))
       (cos (ph / 2) * sin (th / 2) * cos (ps / 2) + sin (ph / 2) * cos (th / 2) * sin (ps / 2))
       (cos (ph / 2) * cos (th / 2) * sin (ps / 2) - sin (ph / 2) * sin (th / 2) * cos (ps / 2))"
  by (simp add: Quaternion_from_euler_def Let_def)

text \<open>The result is a unit quaternion at every input.\<close>

lemma unit_of_half_angles:
  fixes a b c x y z :: real
  assumes "a * a + x * x = 1" "b * b + y * y = 1" "c * c + z * z = 1"
  shows "(a * b * c + x * y * z) * (a * b * c + x * y * z)
       + (x * b * c - a * y * z) * (x * b * c - a * y * z)
       + (a * y * c + x * b * z) * (a * y * c + x * b * z)
       + (a * b * z - x * y * c) * (a * b * z - x * y * c) = 1"
proof -
  have "(a * b * c + x * y * z) * (a * b * c + x * y * z)
       + (x * b * c - a * y * z) * (x * b * c - a * y * z)
       + (a * y * c + x * b * z) * (a * y * c + x * b * z)
       + (a * b * z - x * y * c) * (a * b * z - x * y * c)
      = (a * a + x * x) * (b * b + y * y) * (c * c + z * z)"
    by (simp add: algebra_simps)
  with assms show ?thesis by simp
qed

lemma Quaternion_from_euler_unit:
  "dot (Quaternion_from_euler e) (Quaternion_from_euler e) = 1"
proof -
  have cs: "cos t * cos t + sin t * sin t = 1" for t :: real
    using sin_cos_squared_add2 [of t] by (simp add: power2_eq_square)
  show ?thesis
    unfolding Quaternion_from_euler_def Let_def dot_def quaternion.sel
    by (rule unit_of_half_angles) (rule cs)+
qed

subsection \<open>From a direction-cosine matrix\<close>

text \<open>
  C1, as stated, at a concrete matrix. The half turn about the axis \<open>(1,-1,0) / sqrt 2\<close> has
  trace \<open>-1\<close> and the diagonal \<open>(0, 0, -1)\<close>: R00 and R11 are equal and largest. The
  order R00, R11, R22 selects R00; the constructor takes the R11 branch, and the two
  formulas give quaternions of opposite sign there.
\<close>

theorem from_dcm_tie_counterexample:
  "first_largest_diagonal (Dcm 0 (-1) 0 (-1) 0 0 0 0 (-1)) = 0
   \<and> Quaternion_from_dcm (Dcm 0 (-1) 0 (-1) 0 0 0 0 (-1)) =
       diagonal_extraction 1 (Dcm 0 (-1) 0 (-1) 0 0 0 0 (-1))
   \<and> Quaternion_from_dcm (Dcm 0 (-1) 0 (-1) 0 0 0 0 (-1)) \<noteq>
      (if trace (Dcm 0 (-1) 0 (-1) 0 0 0 0 (-1)) > 0
       then trace_extraction (Dcm 0 (-1) 0 (-1) 0 0 0 0 (-1))
       else diagonal_extraction (first_largest_diagonal (Dcm 0 (-1) 0 (-1) 0 0 0 0 (-1)))
              (Dcm 0 (-1) 0 (-1) 0 0 0 0 (-1)))"
proof (intro conjI)
  show f: "first_largest_diagonal (Dcm 0 (-1) 0 (-1) 0 0 0 0 (-1)) = 0"
    by (simp add: first_largest_diagonal_def)
  show "Quaternion_from_dcm (Dcm 0 (-1) 0 (-1) 0 0 0 0 (-1)) =
       diagonal_extraction 1 (Dcm 0 (-1) 0 (-1) 0 0 0 0 (-1))"
    by (simp add: Quaternion_from_dcm_def diagonal_extraction_def trace_def)
  have a: "q1 (Quaternion_from_dcm (Dcm 0 (-1) 0 (-1) 0 0 0 0 (-1))) < 0"
    by (simp add: Quaternion_from_dcm_def trace_def Let_def)
  have b: "q1 (diagonal_extraction 0 (Dcm 0 (-1) 0 (-1) 0 0 0 0 (-1))) > 0"
    by (simp add: diagonal_extraction_def Let_def)
  from a b have "Quaternion_from_dcm (Dcm 0 (-1) 0 (-1) 0 0 0 0 (-1)) \<noteq>
      diagonal_extraction 0 (Dcm 0 (-1) 0 (-1) 0 0 0 0 (-1))"
    by force
  then show "Quaternion_from_dcm (Dcm 0 (-1) 0 (-1) 0 0 0 0 (-1)) \<noteq>
      (if trace (Dcm 0 (-1) 0 (-1) 0 0 0 0 (-1)) > 0
       then trace_extraction (Dcm 0 (-1) 0 (-1) 0 0 0 0 (-1))
       else diagonal_extraction (first_largest_diagonal (Dcm 0 (-1) 0 (-1) 0 0 0 0 (-1)))
              (Dcm 0 (-1) 0 (-1) 0 0 0 0 (-1)))"
    unfolding f by (simp add: trace_def)
qed

text \<open>
  C1, amended. For every 3x3 matrix \<open>R\<close> the constructor is a four-way branch: if
  \<open>trace R > 0\<close> it is the trace formula (\<open>s = sqrt (1 + trace R)\<close>, \<open>w = 0.5 s\<close>, the
  off-diagonal differences scaled by \<open>0.5 / s\<close>); otherwise it is the largest-diagonal
  formula for the largest diagonal element, where among equal largest elements the
  last in the order R00, R11, R22 is taken.
\<close>

theorem from_dcm_branches:
  "Quaternion_from_dcm R =
     (if trace R > 0 then trace_extraction R
      else diagonal_extraction (last_largest_diagonal R) R)"
proof (cases "trace R > 0")
  case True
  then show ?thesis
    by (simp add: Quaternion_from_dcm_def trace_extraction_def Let_def)
next
  case nt: False
  consider (x) "r00 R > r11 R \<and> r00 R > r22 R"
    | (y) "\<not> (r00 R > r11 R \<and> r00 R > r22 R)" "r11 R > r22 R"
    | (z) "\<not> (r00 R > r11 R \<and> r00 R > r22 R)" "\<not> r11 R > r22 R"
    by blast
  then show ?thesis
  proof cases
    case x
    then have "last_largest_diagonal R = 0"
      by (simp add: last_largest_diagonal_def Let_def max_def)
    with nt x show ?thesis
      by (simp add: Quaternion_from_dcm_def diagonal_extraction_def Let_def add.commute)
  next
    case y
    then have "last_largest_diagonal R = 1"
      by (auto simp add: last_largest_diagonal_def Let_def max_def)
    moreover from y have c: "(r11 R < r00 R \<and> r22 R < r00 R) = False" "(r22 R < r11 R) = True"
      by simp_all
    have "Quaternion_from_dcm R = diagonal_extraction 1 R"
      unfolding Quaternion_from_dcm_def diagonal_extraction_def Let_def
      using nt by (simp add: c algebra_simps)
    ultimately show ?thesis using nt by simp
  next
    case z
    then have "last_largest_diagonal R = 2"
      by (auto simp add: last_largest_diagonal_def Let_def max_def)
    moreover from z have c: "(r11 R < r00 R \<and> r22 R < r00 R) = False" "(r22 R < r11 R) = False"
      by simp_all
    have "Quaternion_from_dcm R = diagonal_extraction 2 R"
      unfolding Quaternion_from_dcm_def diagonal_extraction_def Let_def
      using nt by (simp add: c algebra_simps)
    ultimately show ?thesis using nt by simp
  qed
qed

text \<open>Outside the trace branch the radicand of the selected branch is at least 1, so
  no branch takes the root of a negative number or divides by zero.\<close>

lemma from_dcm_radicand:
  assumes "trace R \<le> 0"
  shows "(last_largest_diagonal R = 0 \<longrightarrow> 1 \<le> 1 + r00 R - r11 R - r22 R)
       \<and> (last_largest_diagonal R = 1 \<longrightarrow> 1 \<le> 1 + r11 R - r00 R - r22 R)
       \<and> (last_largest_diagonal R = 2 \<longrightarrow> 1 \<le> 1 + r22 R - r00 R - r11 R)"
  using assms
  by (auto simp add: last_largest_diagonal_def trace_def Let_def max_def split: if_splits)

subsection \<open>From axis and angle\<close>

text \<open>The one-argument overload and the constructor from an \<^verbatim>\<open>AxisAngle\<close> return the
  identity below the threshold; the two-argument overload assigns all four components
  after its test, whatever the angle.\<close>

lemma from_axis_angle_vec_small:
  "norm3 vec < 1 / 10 ^ 10 \<Longrightarrow> from_axis_angle_vec q vec = Quaternion 1 0 0 0"
  by (simp add: from_axis_angle_vec_def Let_def)

lemma Quaternion_from_AxisAngle_small:
  "norm3 aa < 1 / 10 ^ 10 \<Longrightarrow> Quaternion_from_AxisAngle aa = Quaternion 1 0 0 0"
  by (simp add: Quaternion_from_AxisAngle_def Let_def)

lemma from_axis_angle_overwrites:
  "from_axis_angle q axis th =
     Quaternion (cos (th / 2)) (v0 axis * sin (th / 2))
                (v1 axis * sin (th / 2)) (v2 axis * sin (th / 2))"
  by (simp add: from_axis_angle_def Let_def)

text \<open>
  C2. The claim: for every axis and every angle below \<open>1e-10\<close>, each entry point yields
  exactly \<open>(1,0,0,0)\<close>. The two-argument \<^verbatim>\<open>from_axis_angle(axis, theta)\<close> does not: at the
  axis \<open>(1,0,0)\<close> the angle \<open>1e-11\<close> gives a nonzero second component, and the angle \<open>-\<pi>\<close>
  gives \<open>(0,-1,0,0)\<close>.
\<close>

theorem from_axis_angle_small_theta:
  "(1 / 10 ^ 11 :: real) < 1 / 10 ^ 10
   \<and> from_axis_angle Quaternion_default (Vector3 1 0 0) (1 / 10 ^ 11) \<noteq> Quaternion 1 0 0 0
   \<and> - pi < 1 / 10 ^ 10
   \<and> from_axis_angle Quaternion_default (Vector3 1 0 0) (- pi) = Quaternion 0 (- 1) 0 0"
proof (intro conjI)
  show "(1 / 10 ^ 11 :: real) < 1 / 10 ^ 10" by simp
  have "(1 / 10 ^ 11 / 2 :: real) < 2" by simp
  also have "2 \<le> pi" by (rule pi_ge_two)
  finally have "0 < sin (1 / 10 ^ 11 / 2 :: real)"
    by (intro sin_gt_zero) simp_all
  then have "q1 (from_axis_angle Quaternion_default (Vector3 1 0 0) (1 / 10 ^ 11)) \<noteq> 0"
    by (simp add: from_axis_angle_overwrites)
  then show "from_axis_angle Quaternion_default (Vector3 1 0 0) (1 / 10 ^ 11) \<noteq> Quaternion 1 0 0 0"
    by force
  have "0 < pi" and "(0::real) < 1 / 10 ^ 10" by simp_all
  then show "- pi < 1 / 10 ^ 10" by linarith
  show "from_axis_angle Quaternion_default (Vector3 1 0 0) (- pi) = Quaternion 0 (- 1) 0 0"
    by (simp add: from_axis_angle_overwrites)
qed

subsection \<open>To axis and angle\<close>

lemma wrap_pi_range: "- pi < wrap_pi x \<and> wrap_pi x \<le> pi"
proof -
  define k where "k = \<lceil>(x - pi) / (2 * pi)\<rceil>"
  have p: "0 < 2 * pi" by simp
  have "(x - pi) / (2 * pi) \<le> of_int k" by (simp add: k_def)
  with p have lo: "x - pi \<le> of_int k * (2 * pi)"
    by (simp add: pos_divide_le_eq)
  have "of_int k < (x - pi) / (2 * pi) + 1" unfolding k_def by linarith
  then have "of_int k - 1 < (x - pi) / (2 * pi)" by simp
  with p have hi: "(of_int k - 1) * (2 * pi) < x - pi"
    by (simp add: pos_less_divide_eq)
  have w: "wrap_pi x = x - of_int k * (2 * pi)"
    by (simp add: wrap_pi_def k_def)
  from lo hi show ?thesis unfolding w by (simp add: algebra_simps)
qed

lemma wrap_pi_congruent: "\<exists>k::int. wrap_pi x = x + 2 * pi * of_int k"
proof
  show "wrap_pi x = x + 2 * pi * of_int (- \<lceil>(x - pi) / (2 * pi)\<rceil>)"
    by (simp add: wrap_pi_def)
qed

text \<open>
  C3, as stated, at a concrete quaternion. At \<open>q = (1, 1e-11, 0, 0)\<close> the axis magnitude
  is \<open>1e-11\<close>, below the threshold, and \<^verbatim>\<open>to_axis_angle\<close> returns \<open>(1e-11, 0, 0)\<close>, not the
  zero vector.
\<close>

theorem to_axis_angle_small_counterexample:
  "norm3 (Vector3 (1 / 10 ^ 11) 0 0) < 1 / 10 ^ 10
   \<and> to_axis_angle (Quaternion 1 (1 / 10 ^ 11) 0 0) = Vector3 (1 / 10 ^ 11) 0 0
   \<and> to_axis_angle (Quaternion 1 (1 / 10 ^ 11) 0 0) \<noteq> Vector3 0 0 0"
proof -
  have s: "sqrt (a * a) = a" if "0 \<le> a" for a :: real
    using that by simp
  have e: "sqrt ((1 / 10 ^ 11) * (1 / 10 ^ 11)) = (1 / 10 ^ 11 :: real)"
    by (rule s) simp
  have n: "norm3 (Vector3 (1 / 10 ^ 11) 0 0) = 1 / 10 ^ 11"
    unfolding norm3_def vector3.sel using e by simp
  have t: "to_axis_angle (Quaternion 1 (1 / 10 ^ 11) 0 0) = Vector3 (1 / 10 ^ 11) 0 0"
    unfolding to_axis_angle_def Let_def quaternion.sel using e by simp
  show ?thesis
    unfolding n t by simp
qed

text \<open>
  C3, amended. For every \<open>q = (w,x,y,z)\<close>, with the axis magnitude \<open>sqrt (x\<^sup>2 + y\<^sup>2 + z\<^sup>2)\<close>:
  below \<open>1e-10\<close> \<^verbatim>\<open>to_axis_angle\<close> returns the imaginary part \<open>(x,y,z)\<close> unchanged; otherwise
  it returns \<open>(x,y,z)\<close> over the axis magnitude, scaled by \<open>2 * atan2 (axis magnitude, w)\<close>
  wrapped into \<open>(-\<pi>, \<pi>]\<close>.
\<close>

theorem to_axis_angle_formula:
  "to_axis_angle (Quaternion w x y z) =
     (if sqrt (x\<^sup>2 + y\<^sup>2 + z\<^sup>2) < 1 / 10 ^ 10 then Vector3 x y z
      else Vector3 (x / sqrt (x\<^sup>2 + y\<^sup>2 + z\<^sup>2) * wrap_pi (2 * atan2 (sqrt (x\<^sup>2 + y\<^sup>2 + z\<^sup>2)) w))
                   (y / sqrt (x\<^sup>2 + y\<^sup>2 + z\<^sup>2) * wrap_pi (2 * atan2 (sqrt (x\<^sup>2 + y\<^sup>2 + z\<^sup>2)) w))
                   (z / sqrt (x\<^sup>2 + y\<^sup>2 + z\<^sup>2) * wrap_pi (2 * atan2 (sqrt (x\<^sup>2 + y\<^sup>2 + z\<^sup>2)) w)))
   \<and> - pi < wrap_pi (2 * atan2 (sqrt (x\<^sup>2 + y\<^sup>2 + z\<^sup>2)) w)
   \<and> wrap_pi (2 * atan2 (sqrt (x\<^sup>2 + y\<^sup>2 + z\<^sup>2)) w) \<le> pi"
proof -
  have m: "sqrt (x * x + y * y + z * z) = sqrt (x\<^sup>2 + y\<^sup>2 + z\<^sup>2)"
    by (simp add: power2_eq_square)
  have "to_axis_angle (Quaternion w x y z) =
     (if sqrt (x\<^sup>2 + y\<^sup>2 + z\<^sup>2) < 1 / 10 ^ 10 then Vector3 x y z
      else Vector3 (x / sqrt (x\<^sup>2 + y\<^sup>2 + z\<^sup>2) * wrap_pi (2 * atan2 (sqrt (x\<^sup>2 + y\<^sup>2 + z\<^sup>2)) w))
                   (y / sqrt (x\<^sup>2 + y\<^sup>2 + z\<^sup>2) * wrap_pi (2 * atan2 (sqrt (x\<^sup>2 + y\<^sup>2 + z\<^sup>2)) w))
                   (z / sqrt (x\<^sup>2 + y\<^sup>2 + z\<^sup>2) * wrap_pi (2 * atan2 (sqrt (x\<^sup>2 + y\<^sup>2 + z\<^sup>2)) w)))"
    unfolding to_axis_angle_def Let_def quaternion.sel m
    by (simp add: scale3_def div3_def not_le)
  with wrap_pi_range [of "2 * atan2 (sqrt (x\<^sup>2 + y\<^sup>2 + z\<^sup>2)) w"] show ?thesis
    by blast
qed

end
